theory Spec2Isabelle
  imports Complex_Main
begin

section \<open>Values exchanged with the provider\<close>

text \<open>
  The client reads the provider's payloads dynamically (optional chaining, \<open>||\<close>), so
  they are modelled as untyped JSON values. A JavaScript string is the list of its code
  units, one \<open>char\<close> each, so \<open>length\<close> is the source's \<open>.length\<close>. Numbers are the
  integral ones: \<open>JNum n\<close> is the number that the literal \<open>n\<close> denotes. An object lists
  each of its keys once. \<open>undefined\<close> is \<open>None\<close> of
  \<open>json option\<close>.
\<close>

datatype json =
    JNull
  | JBool bool
  | JNum int
  | JStr string
  | JArr "json list"
  | JObj "(string \<times> json) list"

text \<open>JavaScript truthiness (what \<open>||\<close> and \<open>if\<close> test).\<close>

fun truthy :: "json option \<Rightarrow> bool" where
  "truthy None = False"
| "truthy (Some JNull) = False"
| "truthy (Some (JBool b)) = b"
| "truthy (Some (JNum n)) = (n \<noteq> 0)"
| "truthy (Some (JStr s)) = (s \<noteq> [])"
| "truthy (Some (JArr xs)) = True"
| "truthy (Some (JObj kvs)) = True"

text \<open>\<open>a || b\<close>.\<close>

definition js_or :: "json option \<Rightarrow> json option \<Rightarrow> json option" where
  "js_or a b = (if truthy a then a else b)"

text \<open>
  \<open>v.key\<close> on a value that is neither \<open>null\<close> nor \<open>undefined\<close>, for the keys the client
  reads (\<open>choices\<close>, \<open>message\<close>, \<open>content\<close>, \<open>error\<close>): only an object can own them.
\<close>

fun get_prop :: "json \<Rightarrow> string \<Rightarrow> json option" where
  "get_prop (JObj kvs) key = map_of kvs key"
| "get_prop v key = None"

text \<open>\<open>v?.key\<close>: \<open>undefined\<close> when \<open>v\<close> is \<open>null\<close> or \<open>undefined\<close>.\<close>

fun opt_prop :: "json option \<Rightarrow> string \<Rightarrow> json option" where
  "opt_prop None key = None"
| "opt_prop (Some JNull) key = None"
| "opt_prop (Some v) key = get_prop v key"

text \<open>\<open>v?.[0]\<close>: the first element of an array, the first code unit of a string, the
  property \<open>"0"\<close> of an object.\<close>

fun opt_index0 :: "json option \<Rightarrow> json option" where
  "opt_index0 (Some (JArr (x # xs))) = Some x"
| "opt_index0 (Some (JStr (c # cs))) = Some (JStr [c])"
| "opt_index0 (Some (JObj kvs)) = map_of kvs ''0''"
| "opt_index0 v = None"

text \<open>
  \<open>Number.prototype.toString\<close> on an integer literal. JavaScript holds the number as the
  nearest double (ties to the even significand) and prints the fewest digits that read
  back as that double, the closest such digits when several do: the digits and then
  zeros while the number has at most 21 digits, the exponent form beyond, and
  \<open>Infinity\<close> past the largest double.
\<close>

definition digit :: "int \<Rightarrow> char" where
  "digit d = ''0123456789'' ! nat (d mod 10)"

function decimal :: "int \<Rightarrow> string" where
  "decimal n = (if n div 10 \<le> 0 then [] else decimal (n div 10)) @ [digit n]"
  by pat_completeness auto
termination
  by (relation "measure nat") auto

function bit_length :: "int \<Rightarrow> nat" where
  "bit_length n = (if n \<le> 0 then 0 else Suc (bit_length (n div 2)))"
  by pat_completeness auto
termination
  by (relation "measure nat") auto

text \<open>The double nearest to a non-negative integer, as an integer (no overflow here).\<close>

definition round_double :: "int \<Rightarrow> int" where
  "round_double n =
     (if bit_length n \<le> 53 then n
      else (let sh = bit_length n - 53; q = n div 2 ^ sh; r = n mod 2 ^ sh; half = 2 ^ (sh - 1)
            in (if half < r \<or> (r = half \<and> odd q) then q + 1 else q) * 2 ^ sh))"

text \<open>
  The integer with the fewest significant digits that rounds to the double \<open>v\<close>: the
  multiples of \<open>p\<close> on both sides of \<open>v\<close> are tried, for \<open>p\<close> from the highest power
  of ten of \<open>v\<close> down to one.
\<close>

function shortest :: "int \<Rightarrow> int \<Rightarrow> int" where
  "shortest v p =
     (if p \<le> 1 then v
      else (let low = (v div p) * p; high = low + p
            in if round_double low = v \<and> round_double high = v
               then (if v - low < high - v then low
                     else if high - v < v - low then high
                     else if even (v div p) then low else high)
               else if round_double low = v then low
               else if round_double high = v then high
               else shortest v (p div 10)))"
  by pat_completeness auto
termination
  by (relation "measure (\<lambda>(v, p). nat p)") auto

function strip_zeros :: "int \<Rightarrow> int" where
  "strip_zeros c = (if 10 \<le> c \<and> c mod 10 = 0 then strip_zeros (c div 10) else c)"
  by pat_completeness auto
termination
  by (relation "measure nat") auto

definition print_double :: "int \<Rightarrow> string" where
  "print_double v =
     (let c = shortest v (10 ^ (length (decimal v) - 1)); n = length (decimal c)
      in if n \<le> 21 then decimal c
         else (let s = decimal (strip_zeros c)
               in (if length s = 1 then s else hd s # CHR ''.'' # tl s)
                  @ ''e+'' @ decimal (int n - 1)))"

definition number_to_string :: "int \<Rightarrow> string" where
  "number_to_string i =
     (let v = round_double \<bar>i\<bar>;
          digits = (if 1024 < bit_length v then ''Infinity'' else print_double v)
      in if i < 0 then CHR ''-'' # digits else digits)"

text \<open>\<open>Array.prototype.join\<close> on strings already rendered.\<close>

fun join :: "string \<Rightarrow> string list \<Rightarrow> string" where
  "join sep [] = []"
| "join sep [s] = s"
| "join sep (s # t # ss) = s @ sep @ join sep (t # ss)"

text \<open>
  String conversion inside a template literal. An array prints its elements joined by
  commas, \<open>null\<close> elements as the empty string; an object prints \<open>[object Object]\<close>,
  as every object does that has no entry \<open>toString\<close> of its own.
\<close>

fun to_string :: "json \<Rightarrow> string" where
  "to_string JNull = ''null''"
| "to_string (JBool b) = (if b then ''true'' else ''false'')"
| "to_string (JNum n) = number_to_string n"
| "to_string (JStr s) = s"
| "to_string (JArr xs) = join '','' (map (\<lambda>x. if x = JNull then [] else to_string x) xs)"
| "to_string (JObj kvs) = ''[object Object]''"

section \<open>Messages and the summarization policy\<close>

text \<open>A message as the client documents it: an object whose \<open>role\<close> and \<open>content\<close> are
  strings.\<close>

record message =
  role :: string
  content :: string

text \<open>
  \<open>PerplexityClient.shouldSummarize(messages, maxMessages = 20, maxTokensEstimate = 3000)\<close>.
  The defaults are passed explicitly.
\<close>

definition shouldSummarize :: "message list \<Rightarrow> int \<Rightarrow> int \<Rightarrow> bool" where
  "shouldSummarize msgs maxMessages maxTokensEstimate =
     (if int (length msgs) \<ge> maxMessages then True
      else (let totalChars = foldl (\<lambda>sum msg. sum + int (length (content msg))) 0 msgs
            in totalChars \<ge> maxTokensEstimate * 4))"

section \<open>The completion gateway\<close>

text \<open>
  What a \<open>catch\<close> block of the client can receive. An axios failure has \<open>response\<close>
  when the provider answered with an error status, and \<open>request\<close> when the request left
  and no answer came; an \<open>Error\<close> or a \<open>TypeError\<close> has neither.
\<close>

record http_response =
  status :: int
  statusText :: string
  data :: json

record js_error =
  response :: "http_response option"
  request :: bool
  message :: string

text \<open>\<open>new Error(msg)\<close>.\<close>

definition new_Error :: "string \<Rightarrow> js_error" where
  "new_Error msg = \<lparr>response = None, request = False, message = msg\<rparr>"

text \<open>The value a template literal prints for an expression that may be \<open>undefined\<close>.\<close>

definition template :: "json option \<Rightarrow> string" where
  "template v = (case v of None \<Rightarrow> ''undefined'' | Some x \<Rightarrow> to_string x)"

text \<open>\<open>PerplexityClient.handleError(error)\<close>: it always throws; the model returns the
  \<open>Error\<close> thrown.\<close>

definition handleError :: "js_error \<Rightarrow> js_error" where
  "handleError err =
     (case response err of
        Some r \<Rightarrow>
          new_Error (''Perplexity API Error '' @ number_to_string (status r) @ '' ('' @ statusText r
            @ ''): ''
            @ template (js_or (js_or (opt_prop (opt_prop (Some (data r)) ''error'') ''message'')
                                     (opt_prop (Some (data r)) ''message''))
                              (Some (JStr ''Unknown error''))))
      | None \<Rightarrow>
          if request err
          then new_Error ''No response from Perplexity API. Check your internet connection.''
          else new_Error (''Request Error: '' @ message err))"

text \<open>
  The option bag of a call, and the body of a request to the server: the five entries
  the client names, each present with a value of its documented type or absent, and the
  remaining entries.
\<close>

record options =
  model :: "string option"
  messages :: "message list option"
  max_tokens :: "int option"
  temperature :: "real option"
  stream :: "bool option"
  otherOptions :: "(string \<times> json) list"

text \<open>The object \<open>requestData\<close> posted to \<open>/chat/completions\<close>.\<close>

record request_data =
  rq_model :: string
  rq_messages :: "message list"
  rq_max_tokens :: int
  rq_temperature :: real
  rq_stream :: bool
  rq_otherOptions :: "(string \<times> json) list"

text \<open>The outcome of \<open>this.client.post\<close>: the \<open>data\<close> of the response, or the rejection.\<close>

datatype axios_result = Resolved json | Rejected js_error

text \<open>
  The client object. \<open>default_model\<close> is \<open>process.env.PERPLEXITY_DEFAULT_MODEL\<close>;
  \<open>post\<close> is what the axios instance answers to a request.
\<close>

record client =
  apiKey :: string
  baseURL :: string
  default_model :: "string option"
  post :: "request_data \<Rightarrow> axios_result"

text \<open>\<open>process.env.PERPLEXITY_DEFAULT_MODEL || 'sonar'\<close>.\<close>

definition env_model :: "client \<Rightarrow> string" where
  "env_model c = (case default_model c of None \<Rightarrow> ''sonar''
                  | Some m \<Rightarrow> if m \<noteq> [] then m else ''sonar'')"

text \<open>The destructuring with defaults and the construction of \<open>requestData\<close>.\<close>

definition requestData :: "client \<Rightarrow> options \<Rightarrow> message list \<Rightarrow> request_data" where
  "requestData c opts msgs =
     \<lparr>rq_model = (case model opts of None \<Rightarrow> env_model c | Some m \<Rightarrow> m),
      rq_messages = msgs,
      rq_max_tokens = (case max_tokens opts of None \<Rightarrow> 1000 | Some n \<Rightarrow> n),
      rq_temperature = (case temperature opts of None \<Rightarrow> 0.2 | Some t \<Rightarrow> t),
      rq_stream = (case stream opts of None \<Rightarrow> False | Some b \<Rightarrow> b),
      rq_otherOptions = otherOptions opts\<rparr>"

text \<open>
  \<open>PerplexityClient.chatCompletion(options)\<close>. The result is what the promise settles
  to (\<open>Inl\<close> the error thrown) and the requests posted, in order.
\<close>

definition chatCompletion :: "client \<Rightarrow> options \<Rightarrow> (js_error + json) \<times> request_data list" where
  "chatCompletion c opts =
     (case messages opts of
        None \<Rightarrow> (Inl (handleError (new_Error ''Messages array is required'')), [])
      | Some msgs \<Rightarrow>
          (case post c (requestData c opts msgs) of
             Resolved d \<Rightarrow> (Inr d, [requestData c opts msgs])
           | Rejected err \<Rightarrow> (Inl (handleError err), [requestData c opts msgs])))"

text \<open>The \<open>TypeError\<close> of reading a property of \<open>null\<close>.\<close>

definition null_read :: "string \<Rightarrow> js_error" where
  "null_read key = new_Error (''Cannot read properties of null (reading '' @ [CHR 0x27] @ key
                              @ [CHR 0x27] @ '')'')"

text \<open>\<open>response.choices?.[0]?.message?.content\<close>.\<close>

definition first_content :: "json \<Rightarrow> js_error + json option" where
  "first_content resp =
     (if resp = JNull then Inl (null_read ''choices'')
      else Inr (opt_prop (opt_prop (opt_index0 (get_prop resp ''choices'')) ''message'')
                  ''content''))"

text \<open>\<open>v || 'text'\<close>, which is never \<open>undefined\<close>.\<close>

definition or_text :: "json option \<Rightarrow> string \<Rightarrow> json" where
  "or_text v s = (case js_or v (Some (JStr s)) of None \<Rightarrow> JStr s | Some x \<Rightarrow> x)"

text \<open>\<open>{ messages, ...options }\<close>: an entry \<open>messages\<close> of the bag replaces the one given.\<close>

definition spread_messages :: "message list \<Rightarrow> options \<Rightarrow> options" where
  "spread_messages msgs opts =
     opts\<lparr>messages := (case messages opts of None \<Rightarrow> Some msgs | Some given \<Rightarrow> Some given)\<rparr>"

text \<open>The tail shared by \<open>ask\<close>, \<open>askWithContext\<close> and \<open>summarizeConversation\<close>: the
  content of the first choice or the fallback text, and the \<open>catch\<close> around it.\<close>

definition answer_or :: "string \<Rightarrow> (js_error + json) \<times> request_data list
    \<Rightarrow> (js_error + json) \<times> request_data list" where
  "answer_or fallback settled =
     (case settled of
        (Inl err, sent) \<Rightarrow> (Inl (handleError err), sent)
      | (Inr resp, sent) \<Rightarrow>
          (case first_content resp of
             Inl err \<Rightarrow> (Inl (handleError err), sent)
           | Inr v \<Rightarrow> (Inr (or_text v fallback), sent)))"

text \<open>\<open>PerplexityClient.ask(question, options = {})\<close>.\<close>

definition ask :: "client \<Rightarrow> string \<Rightarrow> options \<Rightarrow> (js_error + json) \<times> request_data list" where
  "ask c question opts =
     answer_or ''No response received''
       (chatCompletion c (spread_messages [\<lparr>role = ''user'', content = question\<rparr>] opts))"

text \<open>\<open>PerplexityClient.askWithContext(question, context = [], options = {})\<close>.\<close>

definition askWithContext :: "client \<Rightarrow> string \<Rightarrow> message list \<Rightarrow> options
    \<Rightarrow> (js_error + json) \<times> request_data list" where
  "askWithContext c question context opts =
     answer_or ''No response received''
       (chatCompletion c
          (spread_messages (context @ [\<lparr>role = ''user'', content = question\<rparr>]) opts))"

text \<open>
  \<open>PerplexityClient.summarizeConversation(messages, options = {})\<close>. The request is
  \<open>{ messages: [prompt], max_tokens: 500, ...options }\<close>, so entries of the bag win.
\<close>

definition conversationText :: "message list \<Rightarrow> string" where
  "conversationText msgs = join [CHR 0x0A] (map (\<lambda>msg. role msg @ '': '' @ content msg) msgs)"

definition summaryPrompt :: "message list \<Rightarrow> string" where
  "summaryPrompt msgs =
     ''Please provide a concise summary of the following conversation, capturing the key ''
     @ ''points, context, and important details that should be remembered for future ''
     @ ''messages. Focus on the main topics discussed and any important information shared:''
     @ [CHR 0x0A, CHR 0x0A] @ conversationText msgs @ [CHR 0x0A, CHR 0x0A] @ ''Summary:''"

definition summary_options :: "message list \<Rightarrow> options \<Rightarrow> options" where
  "summary_options msgs opts =
     (spread_messages [\<lparr>role = ''user'', content = summaryPrompt msgs\<rparr>] opts)
       \<lparr>max_tokens := (case max_tokens opts of None \<Rightarrow> Some 500 | Some n \<Rightarrow> Some n)\<rparr>"

definition summarizeConversation :: "client \<Rightarrow> message list \<Rightarrow> options
    \<Rightarrow> (js_error + json) \<times> request_data list" where
  "summarizeConversation c msgs opts =
     answer_or ''Unable to generate summary'' (chatCompletion c (summary_options msgs opts))"

section \<open>Masking the API key\<close>

text \<open>\<open>String.prototype.substring(a, b)\<close> on non-negative arguments: the ends are swapped
  when out of order and clamped to the string.\<close>

definition substring :: "string \<Rightarrow> nat \<Rightarrow> nat \<Rightarrow> string" where
  "substring s a b = take (max a b - min a b) (drop (min a b) s)"

text \<open>\<open>String.prototype.repeat(n)\<close> for \<open>n \<ge> 0\<close>, the only counts \<open>Math.max(0, _)\<close> lets through.\<close>

definition repeat :: "string \<Rightarrow> int \<Rightarrow> string" where
  "repeat s n = concat (replicate (nat n) s)"

text \<open>\<open>PerplexityClient.getApiKey()\<close>, reading \<open>this.apiKey\<close>.\<close>

definition getApiKey :: "client \<Rightarrow> string" where
  "getApiKey c =
     (if apiKey c \<noteq> []
      then substring (apiKey c) 0 8 @ repeat ''*'' (max 0 (int (length (apiKey c)) - 8))
      else ''No API key set'')"

section \<open>The chat endpoint of the server\<close>

text \<open>The empty option bag \<open>{}\<close>.\<close>

definition no_options :: options where
  "no_options = \<lparr>model = None, messages = None, max_tokens = None, temperature = None,
                  stream = None, otherOptions = []\<rparr>"

text \<open>The body of the 200 reply (its entry \<open>response\<close> is \<open>reply_response\<close> here; its
  \<open>timestamp\<close>, which reads the clock, is left out), and the replies of the handler: a 200
  or a status with the \<open>error\<close> and \<open>message\<close> of the body.\<close>

record chat_reply =
  reply_response :: json
  summarized :: bool
  summary :: json
  originalMessageCount :: nat
  finalMessageCount :: nat

datatype http_reply = Reply200 chat_reply | ReplyError int string string

text \<open>
  The first half of the handler of \<open>POST /chat\<close>: \<open>finalMessages\<close>, \<open>wassummarized\<close> and
  \<open>summaryText\<close> after the summarization block, with the requests posted; \<open>Inl\<close> when
  \<open>summarizeConversation\<close> threw. \<open>currentMessage\<close> is used only where the conversation
  has at least two messages.
\<close>

definition compact :: "client \<Rightarrow> message list
    \<Rightarrow> (js_error + message list \<times> bool \<times> json) \<times> request_data list" where
  "compact c msgs =
     (if shouldSummarize msgs 20 3000
      then (let currentMessage = last msgs;
                messagesToSummarize = butlast msgs
            in if length messagesToSummarize > 0
               then (case summarizeConversation c messagesToSummarize no_options of
                       (Inl err, sent) \<Rightarrow> (Inl err, sent)
                     | (Inr summaryText, sent) \<Rightarrow>
                         (Inr ([\<lparr>role = ''system'',
                                  content = ''Previous conversation summary: ''
                                            @ to_string summaryText\<rparr>,
                                currentMessage], True, summaryText), sent))
               else (Inr (msgs, False, JStr []), []))
      else (Inr (msgs, False, JStr []), []))"

text \<open>
  The handler of \<open>POST /chat\<close> for an initialised client: the reply and the requests
  posted to the provider. The body's \<open>messages\<close> is \<open>None\<close> when the field is missing
  or is not an array.
\<close>

definition post_chat :: "client \<Rightarrow> options \<Rightarrow> http_reply \<times> request_data list" where
  "post_chat c body =
     (case messages body of
        None \<Rightarrow> (ReplyError 400 ''Missing required field''
                   ''Please provide a messages array in the request body'', [])
      | Some msgs \<Rightarrow>
          (case compact c msgs of
             (Inl err, sent) \<Rightarrow> (ReplyError 500 ''API Error'' (message err), sent)
           | (Inr (finalMessages, wassummarized, summaryText), sent) \<Rightarrow>
               (case chatCompletion c (body\<lparr>messages := Some finalMessages\<rparr>) of
                  (Inl err, sent') \<Rightarrow> (ReplyError 500 ''API Error'' (message err), sent @ sent')
                | (Inr resp, sent') \<Rightarrow>
                    (Reply200 \<lparr>reply_response = resp, summarized = wassummarized,
                               summary = (if wassummarized then summaryText else JNull),
                               originalMessageCount = length msgs,
                               finalMessageCount = length finalMessages\<rparr>,
                     sent @ sent'))))"

section \<open>Notions of the specification\<close>

text \<open>The total content length of a conversation, in characters.\<close>

definition total_chars :: "message list \<Rightarrow> int" where
  "total_chars msgs = (\<Sum>m\<leftarrow>msgs. int (length (content m)))"



section \<open>Provider doubles and sample data\<close>

text \<open>A client whose provider answers every request with the same payload, and one whose
  every request fails the same way.\<close>

definition stub_client :: "json \<Rightarrow> client" where
  "stub_client d = \<lparr>apiKey = ''pplx-0123456789'', baseURL = ''https://api.perplexity.ai'',
                     default_model = None, post = (\<lambda>rq. Resolved d)\<rparr>"

definition failing_client :: "js_error \<Rightarrow> client" where
  "failing_client err = \<lparr>apiKey = ''pplx-0123456789'', baseURL = ''https://api.perplexity.ai'',
                          default_model = None, post = (\<lambda>rq. Rejected err)\<rparr>"

definition one_choice :: "string \<Rightarrow> json" where
  "one_choice text =
     JObj [(''choices'', JArr [JObj [(''message'', JObj [(''content'', JStr text)])]])]"


definition timed_out :: js_error where
  "timed_out = \<lparr>response = None, request = True, message = ''timeout of 30000ms exceeded''\<rparr>"

definition long_history :: "message list" where
  "long_history = [\<lparr>role = ''user'', content = replicate 12000 CHR ''a''\<rparr>,
                   \<lparr>role = ''user'', content = ''What are neural networks?''\<rparr>]"

section \<open>The summarization policy\<close>

lemma foldl_chars_total:
  "foldl (\<lambda>sum msg. sum + int (length (content msg))) 0 msgs = total_chars msgs"
proof (induction msgs rule: rev_induct)
  case Nil
  show ?case by (simp add: total_chars_def)
next
  case (snoc m ms)
  then show ?case by (simp add: total_chars_def)
qed

lemma shouldSummarize_iff:
  "shouldSummarize msgs maxMessages maxTokensEstimate \<longleftrightarrow>
     maxMessages \<le> int (length msgs) \<or> maxTokensEstimate * 4 \<le> total_chars msgs"
  by (simp add: shouldSummarize_def Let_def foldl_chars_total)

lemma total_chars_snoc: "total_chars (c @ [m]) = total_chars c + int (length (content m))"
  by (simp add: total_chars_def)

text \<open>
  C1. A conversation of fewer than \<open>maxMessages\<close> messages is to be summarized when its
  contents total exactly \<open>maxTokensEstimate * 4\<close> characters, and is not when they total
  one character less. The thresholds are arbitrary, the defaults 20 and 3000 among them.
\<close>

theorem shouldSummarize_boundary:
  assumes "int (length msgs) < maxMessages"
  shows "(total_chars msgs = maxTokensEstimate * 4 \<longrightarrow>
            shouldSummarize msgs maxMessages maxTokensEstimate)
       \<and> (total_chars msgs = maxTokensEstimate * 4 - 1 \<longrightarrow>
            \<not> shouldSummarize msgs maxMessages maxTokensEstimate)"
  using assms by (simp add: shouldSummarize_iff)

theorem shouldSummarize_boundary_witness:
  "int (length [\<lparr>role = ''user'', content = replicate 12000 CHR ''a''\<rparr>]) < 20
   \<and> total_chars [\<lparr>role = ''user'', content = replicate 12000 CHR ''a''\<rparr>] = 3000 * 4
   \<and> shouldSummarize [\<lparr>role = ''user'', content = replicate 12000 CHR ''a''\<rparr>] 20 3000
   \<and> int (length [\<lparr>role = ''user'', content = replicate 11999 CHR ''a''\<rparr>]) < 20
   \<and> total_chars [\<lparr>role = ''user'', content = replicate 11999 CHR ''a''\<rparr>] = 3000 * 4 - 1
   \<and> \<not> shouldSummarize [\<lparr>role = ''user'', content = replicate 11999 CHR ''a''\<rparr>] 20 3000"
  using shouldSummarize_boundary
          [of "[\<lparr>role = ''user'', content = replicate 12000 CHR ''a''\<rparr>]" 20 3000]
        shouldSummarize_boundary
          [of "[\<lparr>role = ''user'', content = replicate 11999 CHR ''a''\<rparr>]" 20 3000]
  by (simp add: total_chars_def)

text \<open>
  C3. With the default thresholds, every conversation of at least 20 messages is to be
  summarized, whatever its messages contain.
\<close>

theorem shouldSummarize_count:
  assumes "20 \<le> length msgs"
  shows "shouldSummarize msgs 20 3000"
  using assms by (simp add: shouldSummarize_def)

theorem shouldSummarize_count_witness:
  "20 \<le> length (replicate 20 \<lparr>role = ''user'', content = ''hi''\<rparr>)
   \<and> shouldSummarize (replicate 20 \<lparr>role = ''user'', content = ''hi''\<rparr>) 20 3000"
  using shouldSummarize_count [of "replicate 20 \<lparr>role = ''user'', content = ''hi''\<rparr>"]
  by simp

text \<open>
  C4. Appending a message never turns the answer from true to false, the thresholds
  being fixed.
\<close>

theorem shouldSummarize_monotone:
  assumes "shouldSummarize c maxMessages maxTokensEstimate"
  shows "shouldSummarize (c @ [m]) maxMessages maxTokensEstimate"
proof -
  from assms have "maxMessages \<le> int (length c) \<or> maxTokensEstimate * 4 \<le> total_chars c"
    by (simp add: shouldSummarize_iff)
  then show ?thesis
  proof
    assume "maxMessages \<le> int (length c)"
    then have "maxMessages \<le> int (length (c @ [m]))" by simp
    then show ?thesis by (simp add: shouldSummarize_iff)
  next
    assume "maxTokensEstimate * 4 \<le> total_chars c"
    then have "maxTokensEstimate * 4 \<le> total_chars (c @ [m])"
      by (simp add: total_chars_snoc)
    then show ?thesis by (simp add: shouldSummarize_iff)
  qed
qed

theorem shouldSummarize_monotone_witness:
  "shouldSummarize [\<lparr>role = ''user'', content = replicate 12000 CHR ''a''\<rparr>] 20 3000
   \<and> shouldSummarize ([\<lparr>role = ''user'', content = replicate 12000 CHR ''a''\<rparr>]
                        @ [\<lparr>role = ''assistant'', content = ''ok''\<rparr>]) 20 3000"
proof -
  have h: "shouldSummarize [\<lparr>role = ''user'', content = replicate 12000 CHR ''a''\<rparr>] 20 3000"
    by (simp add: shouldSummarize_def)
  from h shouldSummarize_monotone [OF h, of "\<lparr>role = ''assistant'', content = ''ok''\<rparr>"]
  show ?thesis by simp
qed

section \<open>The masked API key\<close>

lemma repeat_star: "repeat ''*'' n = replicate (nat n) CHR ''*''"
proof -
  have "concat (replicate k ''*'') = replicate k CHR ''*''" for k
    by (induction k) simp_all
  then show ?thesis by (simp add: repeat_def)
qed

lemma getApiKey_shape:
  "apiKey c \<noteq> [] \<Longrightarrow>
     getApiKey c = take 8 (apiKey c) @ replicate (length (apiKey c) - 8) CHR ''*''"
  by (simp add: getApiKey_def substring_def repeat_star nat_diff_distrib')

text \<open>
  C10. For a non-empty key, the masked key has the length of the key; its first
  \<open>min 8 (length key)\<close> characters are those of the key and all later ones are \<open>*\<close>.
  A key of at most 8 characters is returned whole.
\<close>

theorem getApiKey_masks:
  assumes "apiKey c \<noteq> []"
  shows "length (getApiKey c) = length (apiKey c)
       \<and> (\<forall>i < min 8 (length (apiKey c)). getApiKey c ! i = apiKey c ! i)
       \<and> (\<forall>i. min 8 (length (apiKey c)) \<le> i \<and> i < length (apiKey c)
              \<longrightarrow> getApiKey c ! i = CHR ''*'')
       \<and> (length (apiKey c) \<le> 8 \<longrightarrow> getApiKey c = apiKey c)"
proof -
  let ?k = "apiKey c"
  have shape: "getApiKey c = take 8 ?k @ replicate (length ?k - 8) CHR ''*''"
    using assms by (rule getApiKey_shape)
  have len: "length (getApiKey c) = length ?k"
    by (simp add: shape)
  have front: "\<forall>i < min 8 (length ?k). getApiKey c ! i = ?k ! i"
    by (simp add: shape nth_append)
  have masked: "\<forall>i. min 8 (length ?k) \<le> i \<and> i < length ?k \<longrightarrow> getApiKey c ! i = CHR ''*''"
  proof (intro allI impI)
    fix i assume i: "min 8 (length ?k) \<le> i \<and> i < length ?k"
    then have "8 \<le> i" by (simp add: min_def split: if_splits)
    with i have "i - 8 < length ?k - 8" by arith
    then have "replicate (length ?k - 8) CHR ''*'' ! (i - 8) = CHR ''*''"
      by (rule nth_replicate)
    with \<open>8 \<le> i\<close> i show "getApiKey c ! i = CHR ''*''"
      by (simp add: shape nth_append min_def)
  qed
  have short: "length ?k \<le> 8 \<longrightarrow> getApiKey c = ?k"
    by (simp add: shape)
  from len front masked short show ?thesis by blast
qed

theorem getApiKey_masks_witness:
  "apiKey (stub_client JNull) \<noteq> []
   \<and> getApiKey (stub_client JNull) = ''pplx-012*******''
   \<and> apiKey ((stub_client JNull)\<lparr>apiKey := ''pplx-abc''\<rparr>) \<noteq> []
   \<and> getApiKey ((stub_client JNull)\<lparr>apiKey := ''pplx-abc''\<rparr>) = ''pplx-abc''"
proof -
  have a: "apiKey (stub_client JNull) \<noteq> []" by (simp add: stub_client_def)
  have b: "apiKey ((stub_client JNull)\<lparr>apiKey := ''pplx-abc''\<rparr>) \<noteq> []" by simp
  have "getApiKey (stub_client JNull) = ''pplx-012*******''"
    by (simp add: getApiKey_def stub_client_def substring_def repeat_def eval_nat_numeral)
  with a b getApiKey_masks [OF a] getApiKey_masks [OF b] show ?thesis by simp
qed

section \<open>The gateway's error translation\<close>




lemma handleError_plain: "response (handleError err) = None \<and> \<not> request (handleError err)"
  by (simp add: handleError_def new_Error_def split: option.splits)




section \<open>Requests and answers of the gateway\<close>

lemma chatCompletion_sent:
  "messages opts = Some ms \<Longrightarrow> snd (chatCompletion c opts) = [requestData c opts ms]"
  by (simp add: chatCompletion_def split: axios_result.splits)

lemma chatCompletion_resolved:
  "messages opts = Some ms \<Longrightarrow> post c (requestData c opts ms) = Resolved d \<Longrightarrow>
     chatCompletion c opts = (Inr d, [requestData c opts ms])"
  by (simp add: chatCompletion_def)

lemma chatCompletion_rejected:
  "messages opts = Some ms \<Longrightarrow> post c (requestData c opts ms) = Rejected err \<Longrightarrow>
     chatCompletion c opts = (Inl (handleError err), [requestData c opts ms])"
  by (simp add: chatCompletion_def)

lemma answer_or_sent: "snd (answer_or fallback settled) = snd settled"
  by (cases settled) (simp add: answer_or_def split: sum.splits)

lemma spread_messages_Some:
  "messages (spread_messages ms opts)
     = Some (case messages opts of None \<Rightarrow> ms | Some given \<Rightarrow> given)"
  by (simp add: spread_messages_def split: option.splits)

lemma or_text_falsy: "\<not> truthy v \<Longrightarrow> or_text v s = JStr s"
  by (simp add: or_text_def js_or_def)

lemma answer_or_falsy:
  "first_content resp = Inr v \<Longrightarrow> \<not> truthy v \<Longrightarrow>
     answer_or fallback (Inr resp, sent) = (Inr (JStr fallback), sent)"
  by (simp add: answer_or_def or_text_falsy)

lemma first_content_empty_choices:
  "get_prop resp ''choices'' = Some (JArr []) \<Longrightarrow> first_content resp = Inr None"
  by (auto simp: first_content_def)

lemma ask_sent:
  "\<exists>ms. messages (spread_messages [\<lparr>role = ''user'', content = question\<rparr>] opts) = Some ms
      \<and> snd (ask c question opts)
          = [requestData c (spread_messages [\<lparr>role = ''user'', content = question\<rparr>] opts) ms]"
proof -
  let ?o = "spread_messages [\<lparr>role = ''user'', content = question\<rparr>] opts"
  obtain ms where ms: "messages ?o = Some ms"
    by (simp add: spread_messages_Some)
  have "snd (ask c question opts) = [requestData c ?o ms]"
    by (simp add: ask_def answer_or_sent chatCompletion_sent [OF ms])
  with ms show ?thesis by blast
qed

lemma askWithContext_sent:
  "\<exists>ms. messages (spread_messages (context @ [\<lparr>role = ''user'', content = question\<rparr>]) opts)
          = Some ms
      \<and> snd (askWithContext c question context opts)
          = [requestData c
               (spread_messages (context @ [\<lparr>role = ''user'', content = question\<rparr>]) opts) ms]"
proof -
  let ?o = "spread_messages (context @ [\<lparr>role = ''user'', content = question\<rparr>]) opts"
  obtain ms where ms: "messages ?o = Some ms"
    by (simp add: spread_messages_Some)
  have "snd (askWithContext c question context opts) = [requestData c ?o ms]"
    by (simp add: askWithContext_def answer_or_sent chatCompletion_sent [OF ms])
  with ms show ?thesis by blast
qed

text \<open>
  C6. When the request that \<open>ask\<close> posts is answered with a payload whose \<open>choices\<close> is
  the empty array, \<open>ask\<close> returns the text \<open>No response received\<close> as its value, not as
  an error.
\<close>

theorem ask_empty_choices:
  assumes "snd (ask c question opts) = [rq]"
      and "post c rq = Resolved resp"
      and "get_prop resp ''choices'' = Some (JArr [])"
  shows "fst (ask c question opts) = Inr (JStr ''No response received'')"
proof -
  let ?o = "spread_messages [\<lparr>role = ''user'', content = question\<rparr>] opts"
  obtain ms where ms: "messages ?o = Some ms"
    and sent: "snd (ask c question opts) = [requestData c ?o ms]"
    using ask_sent by blast
  from sent assms(1) have "rq = requestData c ?o ms" by simp
  with assms(2) have "chatCompletion c ?o = (Inr resp, [requestData c ?o ms])"
    by (simp add: chatCompletion_resolved [OF ms])
  moreover have "first_content resp = Inr None"
    using assms(3) by (rule first_content_empty_choices)
  ultimately show ?thesis
    by (simp add: ask_def answer_or_falsy)
qed

theorem ask_empty_choices_witness:
  "snd (ask (stub_client (JObj [(''choices'', JArr [])])) ''What is the capital of France?''
          no_options)
     = [\<lparr>rq_model = ''sonar'',
         rq_messages = [\<lparr>role = ''user'', content = ''What is the capital of France?''\<rparr>],
         rq_max_tokens = 1000, rq_temperature = 0.2, rq_stream = False, rq_otherOptions = []\<rparr>]
   \<and> get_prop (JObj [(''choices'', JArr [])]) ''choices'' = Some (JArr [])
   \<and> fst (ask (stub_client (JObj [(''choices'', JArr [])])) ''What is the capital of France?''
            no_options)
     = Inr (JStr ''No response received'')"
proof -
  let ?c = "stub_client (JObj [(''choices'', JArr [])])"
  let ?rq = "\<lparr>rq_model = ''sonar'',
         rq_messages = [\<lparr>role = ''user'', content = ''What is the capital of France?''\<rparr>],
         rq_max_tokens = 1000, rq_temperature = 0.2, rq_stream = False, rq_otherOptions = []\<rparr>"
  have sent: "snd (ask ?c ''What is the capital of France?'' no_options) = [?rq]"
    by (simp add: ask_def answer_or_sent chatCompletion_def spread_messages_def no_options_def
        stub_client_def requestData_def env_model_def)
  have answered: "post ?c ?rq = Resolved (JObj [(''choices'', JArr [])])"
    by (simp add: stub_client_def)
  have choices: "get_prop (JObj [(''choices'', JArr [])]) ''choices'' = Some (JArr [])"
    by simp
  from sent choices ask_empty_choices [OF sent answered choices] show ?thesis by simp
qed

text \<open>
  C9. When the request posted is answered with a payload from which
  \<open>choices?.[0]?.message?.content\<close> reads a falsy value (the empty string, \<open>0\<close>, \<open>false\<close>,
  \<open>null\<close>, or nothing at all), \<open>ask\<close> and \<open>askWithContext\<close> return the text
  \<open>No response received\<close>.
\<close>

theorem falsy_content_sentinel:
  assumes "first_content resp = Inr v" and "\<not> truthy v"
  shows "(snd (ask c question opts) = [rq] \<and> post c rq = Resolved resp \<longrightarrow>
            fst (ask c question opts) = Inr (JStr ''No response received''))
       \<and> (snd (askWithContext c question context opts) = [rq'] \<and> post c rq' = Resolved resp \<longrightarrow>
            fst (askWithContext c question context opts) = Inr (JStr ''No response received''))"
proof (intro conjI impI)
  assume a: "snd (ask c question opts) = [rq] \<and> post c rq = Resolved resp"
  let ?o = "spread_messages [\<lparr>role = ''user'', content = question\<rparr>] opts"
  obtain ms where ms: "messages ?o = Some ms"
    and sent: "snd (ask c question opts) = [requestData c ?o ms]"
    using ask_sent by blast
  from sent a have "post c (requestData c ?o ms) = Resolved resp" by simp
  then have "chatCompletion c ?o = (Inr resp, [requestData c ?o ms])"
    by (simp add: chatCompletion_resolved [OF ms])
  then show "fst (ask c question opts) = Inr (JStr ''No response received'')"
    by (simp add: ask_def answer_or_falsy [OF assms])
next
  assume a: "snd (askWithContext c question context opts) = [rq'] \<and> post c rq' = Resolved resp"
  let ?o = "spread_messages (context @ [\<lparr>role = ''user'', content = question\<rparr>]) opts"
  obtain ms where ms: "messages ?o = Some ms"
    and sent: "snd (askWithContext c question context opts) = [requestData c ?o ms]"
    using askWithContext_sent by blast
  from sent a have "post c (requestData c ?o ms) = Resolved resp" by simp
  then have "chatCompletion c ?o = (Inr resp, [requestData c ?o ms])"
    by (simp add: chatCompletion_resolved [OF ms])
  then show "fst (askWithContext c question context opts) = Inr (JStr ''No response received'')"
    by (simp add: askWithContext_def answer_or_falsy [OF assms])
qed

theorem falsy_content_sentinel_witness:
  "first_content (one_choice []) = Inr (Some (JStr []))
   \<and> \<not> truthy (Some (JStr []))
   \<and> snd (ask (stub_client (one_choice [])) ''Hello'' no_options)
       = [requestData (stub_client (one_choice [])) no_options
            [\<lparr>role = ''user'', content = ''Hello''\<rparr>]]
   \<and> snd (askWithContext (stub_client (one_choice [])) ''Hello'' [] no_options)
       = [requestData (stub_client (one_choice [])) no_options
            [\<lparr>role = ''user'', content = ''Hello''\<rparr>]]
   \<and> post (stub_client (one_choice []))
        (requestData (stub_client (one_choice [])) no_options
           [\<lparr>role = ''user'', content = ''Hello''\<rparr>])
       = Resolved (one_choice [])
   \<and> fst (ask (stub_client (one_choice [])) ''Hello'' no_options)
       = Inr (JStr ''No response received'')
   \<and> fst (askWithContext (stub_client (one_choice [])) ''Hello'' [] no_options)
       = Inr (JStr ''No response received'')"
proof -
  let ?c = "stub_client (one_choice [])"
  let ?rq = "requestData ?c no_options [\<lparr>role = ''user'', content = ''Hello''\<rparr>]"
  have fc: "first_content (one_choice []) = Inr (Some (JStr []))"
    by (simp add: first_content_def one_choice_def)
  have falsy: "\<not> truthy (Some (JStr []))" by simp
  have answered: "post ?c ?rq = Resolved (one_choice [])"
    by (simp add: stub_client_def)
  have sent: "snd (ask ?c ''Hello'' no_options) = [?rq]"
    by (simp add: ask_def answer_or_sent chatCompletion_def spread_messages_def no_options_def
        stub_client_def requestData_def)
  have sent': "snd (askWithContext ?c ''Hello'' [] no_options) = [?rq]"
    by (simp add: askWithContext_def answer_or_sent chatCompletion_def spread_messages_def
        no_options_def stub_client_def requestData_def)
  from falsy_content_sentinel [OF fc falsy, of ?c "''Hello''" no_options ?rq "[]" ?rq]
    fc falsy answered sent sent'
  show ?thesis by simp
qed

text \<open>
  An option bag that has an entry \<open>messages\<close> replaces the list that \<open>askWithContext\<close>
  built, since the bag is spread after it: here the request carries the list of the bag,
  not the context followed by the question.
\<close>

theorem askWithContext_override_counterexample:
  "map rq_messages
     (snd (askWithContext (stub_client (JObj [])) ''What are neural networks?''
             [\<lparr>role = ''user'', content = ''Hi''\<rparr>]
             (no_options\<lparr>messages := Some [\<lparr>role = ''user'', content = ''Something else''\<rparr>]\<rparr>)))
   \<noteq> [[\<lparr>role = ''user'', content = ''Hi''\<rparr>]
        @ [\<lparr>role = ''user'', content = ''What are neural networks?''\<rparr>]]"
  by (simp add: askWithContext_def answer_or_sent chatCompletion_def spread_messages_def
      no_options_def stub_client_def requestData_def)

text \<open>
  C5, amended. For every question, every list of prior messages and every option bag
  without an entry \<open>messages\<close>, \<open>askWithContext\<close> posts exactly one request, and its
  message list is the prior messages, in order and unchanged, followed by the one entry
  of role \<open>user\<close> whose content is the question.
\<close>

theorem askWithContext_request:
  assumes "messages opts = None"
  shows "map rq_messages (snd (askWithContext c question context opts))
           = [context @ [\<lparr>role = ''user'', content = question\<rparr>]]"
proof -
  let ?ms = "context @ [\<lparr>role = ''user'', content = question\<rparr>]"
  have ms: "messages (spread_messages ?ms opts) = Some ?ms"
    using assms by (simp add: spread_messages_Some)
  have "snd (askWithContext c question context opts)
          = [requestData c (spread_messages ?ms opts) ?ms]"
    by (simp add: askWithContext_def answer_or_sent chatCompletion_sent [OF ms])
  then show ?thesis by (simp add: requestData_def)
qed

theorem askWithContext_request_witness:
  "messages no_options = None
   \<and> map rq_messages
       (snd (askWithContext (stub_client (JObj [])) ''What are neural networks?''
               [\<lparr>role = ''user'', content = ''Hi, I want to learn about AI''\<rparr>,
                \<lparr>role = ''assistant'', content = ''I would be happy to help!''\<rparr>] no_options))
     = [[\<lparr>role = ''user'', content = ''Hi, I want to learn about AI''\<rparr>,
         \<lparr>role = ''assistant'', content = ''I would be happy to help!''\<rparr>,
         \<lparr>role = ''user'', content = ''What are neural networks?''\<rparr>]]"
proof -
  have h: "messages no_options = None" by (simp add: no_options_def)
  from h askWithContext_request [OF h, of "stub_client (JObj [])" "''What are neural networks?''"
      "[\<lparr>role = ''user'', content = ''Hi, I want to learn about AI''\<rparr>,
        \<lparr>role = ''assistant'', content = ''I would be happy to help!''\<rparr>]"]
  show ?thesis by simp
qed

section \<open>The chat endpoint\<close>

lemma summary_options_messages:
  "messages (summary_options ms no_options)
     = Some [\<lparr>role = ''user'', content = summaryPrompt ms\<rparr>]"
  by (simp add: summary_options_def spread_messages_def no_options_def)

lemma summarizeConversation_sent:
  "snd (summarizeConversation c ms no_options) =
     [requestData c (summary_options ms no_options)
        [\<lparr>role = ''user'', content = summaryPrompt ms\<rparr>]]"
  by (simp add: summarizeConversation_def answer_or_sent
      chatCompletion_sent [OF summary_options_messages])

lemma summarizeConversation_rejected:
  assumes "post c (requestData c (summary_options ms no_options)
                     [\<lparr>role = ''user'', content = summaryPrompt ms\<rparr>]) = Rejected err"
  shows "fst (summarizeConversation c ms no_options) = Inl (handleError (handleError err))"
  by (simp add: summarizeConversation_def answer_or_def
      chatCompletion_rejected [OF summary_options_messages assms])

lemma butlast_nonempty: "2 \<le> length msgs \<Longrightarrow> butlast msgs \<noteq> []"
  by (cases msgs rule: rev_cases) auto

lemma compact_summarized:
  assumes "2 \<le> length msgs" and "shouldSummarize msgs 20 3000"
      and "summarizeConversation c (butlast msgs) no_options = (Inr summaryText, sent)"
  shows "compact c msgs =
     (Inr ([\<lparr>role = ''system'',
              content = ''Previous conversation summary: '' @ to_string summaryText\<rparr>,
            last msgs], True, summaryText), sent)"
  using assms by (simp add: compact_def Let_def butlast_nonempty)

lemma compact_failed:
  assumes "2 \<le> length msgs" and "shouldSummarize msgs 20 3000"
      and "summarizeConversation c (butlast msgs) no_options = (Inl err, sent)"
  shows "compact c msgs = (Inl err, sent)"
  using assms by (simp add: compact_def Let_def butlast_nonempty)

lemma post_chat_sent:
  assumes "messages body = Some msgs"
      and "compact c msgs = (Inr (final, flag, text), sent)"
  shows "snd (post_chat c body)
           = sent @ [requestData c (body\<lparr>messages := Some final\<rparr>) final]"
proof -
  let ?opts = "body\<lparr>messages := Some final\<rparr>"
  have "messages ?opts = Some final" by simp
  then have "snd (chatCompletion c ?opts) = [requestData c ?opts final]"
    by (rule chatCompletion_sent)
  then obtain r where r: "chatCompletion c ?opts = (r, [requestData c ?opts final])"
    by (cases "chatCompletion c ?opts") simp
  show ?thesis
    by (cases r) (simp_all add: post_chat_def assms r)
qed

lemma long_history_facts:
  "2 \<le> length long_history" "shouldSummarize long_history 20 3000"
  "butlast long_history = [\<lparr>role = ''user'', content = replicate 12000 CHR ''a''\<rparr>]"
  "last long_history = \<lparr>role = ''user'', content = ''What are neural networks?''\<rparr>"
  by (simp_all add: long_history_def shouldSummarize_def)

text \<open>
  C2. When the body of a chat request carries a conversation of at least two messages
  that the policy sends to summarization, and the summarization returns a summary text,
  the handler posts two requests: the summarization prompt, and then a conversation of
  exactly two messages, a \<open>system\<close> message whose content is
  \<open>Previous conversation summary: \<close> followed by the summary text, and the last message
  of the input, unchanged.
\<close>

theorem post_chat_compacted:
  assumes "messages body = Some msgs"
      and "2 \<le> length msgs"
      and "shouldSummarize msgs 20 3000"
      and "summarizeConversation c (butlast msgs) no_options = (Inr (JStr summaryText), sent)"
  shows "map rq_messages (snd (post_chat c body)) =
           [[\<lparr>role = ''user'', content = summaryPrompt (butlast msgs)\<rparr>],
            [\<lparr>role = ''system'', content = ''Previous conversation summary: '' @ summaryText\<rparr>,
             last msgs]]"
proof -
  let ?final = "[\<lparr>role = ''system'',
                   content = ''Previous conversation summary: '' @ to_string (JStr summaryText)\<rparr>,
                 last msgs]"
  let ?opts = "body\<lparr>messages := Some ?final\<rparr>"
  have c: "compact c msgs = (Inr (?final, True, JStr summaryText), sent)"
    using assms(2-4) by (rule compact_summarized)
  have "sent = snd (summarizeConversation c (butlast msgs) no_options)"
    by (simp add: assms(4))
  then have sent: "map rq_messages sent
      = [[\<lparr>role = ''user'', content = summaryPrompt (butlast msgs)\<rparr>]]"
    by (simp add: summarizeConversation_sent requestData_def)
  have "snd (post_chat c body) = sent @ [requestData c ?opts ?final]"
    using assms(1) c by (rule post_chat_sent)
  then show ?thesis
    by (simp add: sent requestData_def)
qed

theorem post_chat_compacted_witness:
  "messages (no_options\<lparr>messages := Some long_history\<rparr>) = Some long_history
   \<and> 2 \<le> length long_history
   \<and> shouldSummarize long_history 20 3000
   \<and> summarizeConversation (stub_client (one_choice ''They greeted.'')) (butlast long_history)
        no_options
      = (Inr (JStr ''They greeted.''),
         [requestData (stub_client (one_choice ''They greeted.''))
            (summary_options (butlast long_history) no_options)
            [\<lparr>role = ''user'', content = summaryPrompt (butlast long_history)\<rparr>]])
   \<and> map rq_messages (snd (post_chat (stub_client (one_choice ''They greeted.''))
                               (no_options\<lparr>messages := Some long_history\<rparr>)))
      = [[\<lparr>role = ''user'', content = summaryPrompt (butlast long_history)\<rparr>],
         [\<lparr>role = ''system'', content = ''Previous conversation summary: They greeted.''\<rparr>,
          \<lparr>role = ''user'', content = ''What are neural networks?''\<rparr>]]"
proof -
  let ?c = "stub_client (one_choice ''They greeted.'')"
  let ?body = "no_options\<lparr>messages := Some long_history\<rparr>"
  let ?sent = "[requestData ?c (summary_options (butlast long_history) no_options)
                  [\<lparr>role = ''user'', content = summaryPrompt (butlast long_history)\<rparr>]]"
  have b: "messages ?body = Some long_history" by simp
  have s: "summarizeConversation ?c (butlast long_history) no_options
             = (Inr (JStr ''They greeted.''), ?sent)"
    by (simp add: summarizeConversation_def answer_or_def chatCompletion_def
        summary_options_messages stub_client_def one_choice_def first_content_def
        or_text_def js_or_def)
  from post_chat_compacted [OF b long_history_facts(1,2) s] b long_history_facts(1,2,4) s
  show ?thesis by simp
qed

text \<open>
  What the handler does when the request posted for the summary is rejected, for every
  conversation of at least two messages that the policy sends to summarization:
  \<open>summarizeConversation\<close> throws, the handler answers 500 with the message of the
  error thrown, and the rejected request is the only one posted. It carries the
  summarization prompt alone, never the original conversation, and no completion is
  requested after it.
\<close>

lemma summary_failure_no_fallback:
  assumes "messages body = Some msgs"
      and "2 \<le> length msgs"
      and "shouldSummarize msgs 20 3000"
      and "snd (summarizeConversation c (butlast msgs) no_options) = [rq]"
      and "post c rq = Rejected err"
  shows "(\<exists>thrown. fst (summarizeConversation c (butlast msgs) no_options) = Inl thrown
            \<and> post_chat c body = (ReplyError 500 ''API Error'' (message thrown), [rq]))
       \<and> rq_messages rq = [\<lparr>role = ''user'', content = summaryPrompt (butlast msgs)\<rparr>]
       \<and> rq_messages rq \<noteq> msgs"
proof -
  let ?rq = "requestData c (summary_options (butlast msgs) no_options)
               [\<lparr>role = ''user'', content = summaryPrompt (butlast msgs)\<rparr>]"
  let ?thrown = "handleError (handleError err)"
  have rq: "rq = ?rq"
    using assms(4) by (simp add: summarizeConversation_sent)
  have thrown: "fst (summarizeConversation c (butlast msgs) no_options) = Inl ?thrown"
    using assms(5) unfolding rq by (rule summarizeConversation_rejected)
  with assms(4) have s: "summarizeConversation c (butlast msgs) no_options = (Inl ?thrown, [rq])"
    by (cases "summarizeConversation c (butlast msgs) no_options") simp
  have c: "compact c msgs = (Inl ?thrown, [rq])"
    using assms(2,3) s by (rule compact_failed)
  have reply: "post_chat c body = (ReplyError 500 ''API Error'' (message ?thrown), [rq])"
    by (simp add: post_chat_def assms(1) c)
  have one: "rq_messages rq = [\<lparr>role = ''user'', content = summaryPrompt (butlast msgs)\<rparr>]"
    by (simp add: rq requestData_def)
  have "length (rq_messages rq) \<noteq> length msgs"
    using assms(2) by (simp add: one)
  then have differs: "rq_messages rq \<noteq> msgs" by auto
  from thrown reply have "\<exists>thrown. fst (summarizeConversation c (butlast msgs) no_options)
            = Inl thrown
        \<and> post_chat c body = (ReplyError 500 ''API Error'' (message thrown), [rq])"
    by blast
  with one differs show ?thesis by blast
qed

text \<open>
  C7, at a failing input. The provider leaves every request unanswered and the body
  carries a conversation of two messages that the policy sends to summarization. The
  completion call made for the summary fails with the connectivity error. The handler
  answers 500 and posts nothing but the rejected summarization request, as the claim
  says; but its message is not that error's: \<open>summarizeConversation\<close> translates the
  translated error once more, into a request error. On the handler's own completion
  call, reached by a conversation of one short message, the same failure is answered
  with the connectivity error itself.
\<close>

theorem post_chat_summary_failure_retranslated:
  "chatCompletion (failing_client timed_out) (summary_options (butlast long_history) no_options)
     = (Inl (new_Error ''No response from Perplexity API. Check your internet connection.''),
        [requestData (failing_client timed_out)
           (summary_options (butlast long_history) no_options)
           [\<lparr>role = ''user'', content = summaryPrompt (butlast long_history)\<rparr>]])
   \<and> post_chat (failing_client timed_out) (no_options\<lparr>messages := Some long_history\<rparr>)
     = (ReplyError 500 ''API Error''
          ''Request Error: No response from Perplexity API. Check your internet connection.'',
        [requestData (failing_client timed_out)
           (summary_options (butlast long_history) no_options)
           [\<lparr>role = ''user'', content = summaryPrompt (butlast long_history)\<rparr>]])
   \<and> fst (post_chat (failing_client timed_out) (no_options\<lparr>messages := Some long_history\<rparr>))
     \<noteq> ReplyError 500 ''API Error''
          ''No response from Perplexity API. Check your internet connection.''
   \<and> fst (post_chat (failing_client timed_out)
            (no_options\<lparr>messages := Some [\<lparr>role = ''user'', content = ''Hello''\<rparr>]\<rparr>))
     = ReplyError 500 ''API Error''
         ''No response from Perplexity API. Check your internet connection.''"
proof -
  let ?c = "failing_client timed_out"
  let ?body = "no_options\<lparr>messages := Some long_history\<rparr>"
  let ?rq = "requestData ?c (summary_options (butlast long_history) no_options)
               [\<lparr>role = ''user'', content = summaryPrompt (butlast long_history)\<rparr>]"
  have translated: "handleError timed_out
      = new_Error ''No response from Perplexity API. Check your internet connection.''"
    by (simp add: handleError_def timed_out_def)
  have rej: "post ?c ?rq = Rejected timed_out"
    by (simp add: failing_client_def)
  have call: "chatCompletion ?c (summary_options (butlast long_history) no_options)
      = (Inl (new_Error ''No response from Perplexity API. Check your internet connection.''),
         [?rq])"
    using chatCompletion_rejected [OF summary_options_messages rej] by (simp add: translated)
  have thrown: "summarizeConversation ?c (butlast long_history) no_options
      = (Inl (new_Error
           ''Request Error: No response from Perplexity API. Check your internet connection.''),
         [?rq])"
    by (simp add: summarizeConversation_def answer_or_def call handleError_def new_Error_def)
  have c: "compact ?c long_history
      = (Inl (new_Error
           ''Request Error: No response from Perplexity API. Check your internet connection.''),
         [?rq])"
    using long_history_facts(1,2) thrown by (rule compact_failed)
  have reply: "post_chat ?c ?body
      = (ReplyError 500 ''API Error''
           ''Request Error: No response from Perplexity API. Check your internet connection.'',
         [?rq])"
    by (simp add: post_chat_def c new_Error_def)
  have direct: "fst (post_chat ?c
                       (no_options\<lparr>messages := Some [\<lparr>role = ''user'', content = ''Hello''\<rparr>]\<rparr>))
      = ReplyError 500 ''API Error''
          ''No response from Perplexity API. Check your internet connection.''"
    by (simp add: post_chat_def compact_def shouldSummarize_def chatCompletion_def
        failing_client_def translated new_Error_def no_options_def)
  from call reply direct show ?thesis by simp
qed

end
